theory Spec2Isabelle
  imports Main
begin

section \<open>Errors\<close>

text \<open>
  Every exception the routes can raise is a value. \<open>HTTPException\<close> carries the status
  code and the detail string the route passes; the others are the Python exceptions that
  escape a route uncaught (the framework turns them into a 500 response), except
  \<open>ValidationError\<close>, which the request schema raises before the route body runs.
\<close>

datatype error =
    HTTPException nat string
  | ValidationError
  | IndexError
  | ZeroDivisionError
  | ValueError

definition HTTP_400_BAD_REQUEST :: nat where
  "HTTP_400_BAD_REQUEST = 400"

definition HTTP_404_NOT_FOUND :: nat where
  "HTTP_404_NOT_FOUND = 404"

section \<open>Python floats, as far as the grader uses them\<close>

text \<open>
  \<open>submit_exam\<close> computes \<open>int((correct_count / exam.total_questions) * 100)\<close>: a true
  division of two ints, a float multiplication and a truncation. Python floats are IEEE 754
  binary64 numbers and both operations round the exact result to the nearest double, ties
  to even. A non-negative finite double is kept as \<open>Float m e\<close>, standing for
  \<open>m * 2 ^ e\<close>; rounding keeps 53 significant bits. The values here lie between 1/100 and
  100 times the operands, far from the subnormal and overflow ranges, which are not
  modelled.
\<close>

datatype py_float = Float (mantissa: nat) (exponent: int)

fun bit_length :: "nat \<Rightarrow> nat" where
  "bit_length n = (if n = 0 then 0 else Suc (bit_length (n div 2)))"

declare bit_length.simps [simp del]

definition round_half_even :: "nat \<Rightarrow> nat \<Rightarrow> nat" where
  \<comment> \<open>the integer nearest to \<open>n / d\<close>, a tie going to the even neighbour\<close>
  "round_half_even n d =
     (let q = n div d; r = n mod d
      in if 2 * r < d then q
         else if d < 2 * r then q + 1
         else if even q then q else q + 1)"

definition ilog2_ratio :: "nat \<Rightarrow> nat \<Rightarrow> int" where
  \<comment> \<open>\<open>\<lfloor>log\<^sub>2 (n / d)\<rfloor>\<close> for positive \<open>n\<close> and \<open>d\<close>\<close>
  "ilog2_ratio n d =
     (let k = int (bit_length n) - int (bit_length d)
      in if d * 2 ^ nat k \<le> n * 2 ^ nat (- k) then k else k - 1)"

definition round_to_double :: "nat \<Rightarrow> nat \<Rightarrow> py_float" where
  \<comment> \<open>the double nearest to the exact quotient \<open>n / d\<close>\<close>
  "round_to_double n d =
     (if n = 0 then Float 0 0
      else let e = ilog2_ratio n d - 52
           in Float (round_half_even (n * 2 ^ nat (- e)) (d * 2 ^ nat e)) e)"

definition int_truediv :: "nat \<Rightarrow> nat \<Rightarrow> error + py_float" where
  \<comment> \<open>\<open>a / b\<close> on ints\<close>
  "int_truediv a b = (if b = 0 then Inl ZeroDivisionError else Inr (round_to_double a b))"

definition float_mul_int :: "py_float \<Rightarrow> nat \<Rightarrow> py_float" where
  \<comment> \<open>\<open>x * k\<close> for a float \<open>x\<close> and an int \<open>k\<close> that is itself a double\<close>
  "float_mul_int x k =
     round_to_double (mantissa x * k * 2 ^ nat (exponent x)) (2 ^ nat (- exponent x))"

definition int_of_float :: "py_float \<Rightarrow> nat" where
  \<comment> \<open>\<open>int(x)\<close>: truncation towards zero\<close>
  "int_of_float x = (mantissa x * 2 ^ nat (exponent x)) div 2 ^ nat (- exponent x)"

definition score_percentage_of :: "nat \<Rightarrow> nat \<Rightarrow> error + nat" where
  \<comment> \<open>\<open>int((correct_count / exam.total_questions) * 100)\<close>\<close>
  "score_percentage_of correct_count total_questions =
     (case int_truediv correct_count total_questions of
        Inl err \<Rightarrow> Inl err
      | Inr ratio \<Rightarrow> Inr (int_of_float (float_mul_int ratio 100)))"

section \<open>Python containers\<close>

text \<open>
  A dict keeps its keys in insertion order; assigning to a key that is present keeps its
  place. It is an association list whose keys are distinct.
\<close>

fun dict_get :: "('k \<times> 'v) list \<Rightarrow> 'k \<Rightarrow> 'v option" where
  "dict_get [] k = None"
| "dict_get ((k', v) # d) k = (if k' = k then Some v else dict_get d k)"

fun dict_set :: "('k \<times> 'v) list \<Rightarrow> 'k \<Rightarrow> 'v \<Rightarrow> ('k \<times> 'v) list" where
  "dict_set [] k v = [(k, v)]"
| "dict_set ((k', v') # d) k v = (if k' = k then (k, v) # d else (k', v') # dict_set d k v)"

definition dict_get_default :: "('k \<times> 'v) list \<Rightarrow> 'k \<Rightarrow> 'v \<Rightarrow> 'v" where
  \<comment> \<open>\<open>d.get(k, default)\<close>\<close>
  "dict_get_default d k dflt = (case dict_get d k of None \<Rightarrow> dflt | Some v \<Rightarrow> v)"

definition py_index :: "'a list \<Rightarrow> int \<Rightarrow> error + 'a" where
  \<comment> \<open>\<open>xs[i]\<close>: positions \<open>0 .. len - 1\<close> from the front, \<open>-1 .. -len\<close> from the
      back, \<open>IndexError\<close> for any other\<close>
  "py_index xs i =
     (if 0 \<le> i \<and> i < int (length xs) then Inr (xs ! nat i)
      else if - int (length xs) \<le> i \<and> i < 0 then Inr (xs ! nat (int (length xs) + i))
      else Inl IndexError)"

fun join :: "string \<Rightarrow> string list \<Rightarrow> string" where
  "join sep [] = []"
| "join sep [x] = x"
| "join sep (x # y # ys) = x @ sep @ join sep (y # ys)"

definition sorted_by_count_desc :: "('k \<times> nat) list \<Rightarrow> ('k \<times> nat) list" where
  \<comment> \<open>\<open>sorted(items, key=lambda x: x[1], reverse=True)\<close>: Python's sort is stable and
      stays stable under \<open>reverse=True\<close>, so equal counts keep their order\<close>
  "sorted_by_count_desc items = sort_key (\<lambda>x. - int (snd x)) items"

text \<open>
  \<open>random.sample(population, k)\<close> is the standard library's: it raises \<open>ValueError\<close> when
  \<open>k\<close> is negative or larger than the population, and otherwise returns \<open>k\<close> elements
  drawn without replacement. The random draws are the argument \<open>rnd\<close>; each one picks a
  position among the elements not drawn yet.
\<close>

fun draw :: "(nat \<Rightarrow> nat) \<Rightarrow> 'a list \<Rightarrow> nat \<Rightarrow> 'a list" where
  "draw rnd population 0 = []"
| "draw rnd population (Suc k) =
     (if population = [] then []
      else let j = rnd 0 mod length population
           in population ! j
              # draw (\<lambda>i. rnd (Suc i)) (take j population @ drop (Suc j) population) k)"

definition random_sample :: "(nat \<Rightarrow> nat) \<Rightarrow> 'a list \<Rightarrow> int \<Rightarrow> error + 'a list" where
  "random_sample rnd population k =
     (if k < 0 \<or> int (length population) < k then Inl ValueError
      else Inr (draw rnd population (nat k)))"

section \<open>Data model\<close>

type_synonym timestamp = int \<comment> \<open>a UTC datetime, in seconds since the epoch\<close>

definition date_of :: "timestamp \<Rightarrow> int" where
  \<comment> \<open>\<open>.date()\<close> and SQL \<open>date(...)\<close>: the day number\<close>
  "date_of t = t div 86400"

type_synonym options = "(string \<times> string) list"

text \<open>
  Modelled from the spec: the \<open>PastQuestion\<close> table class (a QuestionBankEntry) is not
  among the sources; its columns are those the routes read and write. \<open>correct_answer\<close>
  and \<open>topic\<close> are nullable.
\<close>

record past_question =
  pq_exam_type :: string
  pq_subject :: string
  pq_year :: string
  pq_question_number :: int
  pq_question_text :: string
  pq_options :: options
  pq_correct_answer :: "string option"
  pq_topic :: "string option"

text \<open>
  A question snapshot kept in \<open>ExamAttempt.questions\<close>: a JSON object with the keys
  \<open>question\<close>, \<open>options\<close>, \<open>correct_answer\<close> and \<open>topic\<close>. \<open>sq_topic\<close> is \<open>None\<close> when
  the key \<open>topic\<close> is absent.
\<close>

record stored_question =
  sq_question :: string
  sq_options :: options
  sq_correct_answer :: "string option"
  sq_topic :: "string option"

text \<open>\<open>ExamQuestion\<close>, the question as the student receives it.\<close>

record exam_question =
  question_number :: nat
  question_text :: string
  eq_options :: options
  correct_answer :: "string option"

text \<open>
  \<open>ExamAttempt\<close>. The answer key \<open>correct_answers\<close> is keyed by \<open>str(position)\<close>;
  \<open>str\<close> is injective on ints and every lookup goes through it, so the key is kept as the
  int it prints. \<open>total_questions\<close>, \<open>correct_count\<close> and \<open>score_percentage\<close> only ever
  receive a \<open>len(...)\<close>, a loop counter and a truncated percentage of those.
\<close>

record exam_attempt =
  ea_id :: nat
  user_id :: nat
  exam_type :: string
  subject :: string
  year :: "string option"
  questions :: "stored_question list"
  user_answers :: "(int \<times> string) list"
  correct_answers :: "(int \<times> string option) list"
  time_limit_minutes :: int
  time_taken_seconds :: int
  total_questions :: nat
  correct_count :: nat
  score_percentage :: nat
  weak_topics :: "string list option"
  started_at :: timestamp
  completed_at :: "timestamp option"

text \<open>\<open>UserSubject\<close>, the per-user, per-subject performance row.\<close>

record user_subject =
  us_id :: nat
  us_user_id :: nat
  subject_name :: string
  total_questions_attempted :: int
  us_correct_answers :: int

text \<open>\<open>QuestionHistory\<close>: the columns the statistics read.\<close>

record question_history =
  qh_id :: nat
  qh_user_id :: nat
  qh_question_text :: string
  qh_subject :: "string option"
  solved_at :: timestamp

text \<open>The store: one list of rows per table, in insertion order.\<close>

record db =
  past_questions :: "past_question list"
  exam_attempts :: "exam_attempt list"
  user_subjects :: "user_subject list"
  question_histories :: "question_history list"

definition next_id :: "nat list \<Rightarrow> nat" where
  \<comment> \<open>the primary key the store gives a new row: one that no row of the table has\<close>
  "next_id ids = Suc (fold max ids 0)"

text \<open>
  \<open>update_first P f\<close> is the commit of a change \<open>f\<close> to the row that
  \<open>query.filter(P).first()\<close> returned: the first row satisfying \<open>P\<close>.
\<close>

fun update_first :: "('a \<Rightarrow> bool) \<Rightarrow> ('a \<Rightarrow> 'a) \<Rightarrow> 'a list \<Rightarrow> 'a list" where
  "update_first P f [] = []"
| "update_first P f (x # xs) = (if P x then f x # xs else x # update_first P f xs)"

section \<open>Exam generator\<close>

text \<open>
  The JSON body of \<open>POST /create\<close>: an optional field is \<open>None\<close> when the caller omits
  it. \<open>MockExamRequest\<close> is the schema: it fills the defaults of the fields left out and
  checks the bounds (\<open>ge\<close>, \<open>le\<close>) of the values given.
\<close>

record mock_exam_body =
  body_exam_type :: string
  body_subject :: string
  body_year :: "string option"
  body_number_of_questions :: "int option"
  body_time_limit_minutes :: "int option"

record mock_exam_request =
  req_exam_type :: string
  req_subject :: string
  req_year :: "string option"
  number_of_questions :: int
  req_time_limit_minutes :: int

definition Field :: "int \<Rightarrow> int \<Rightarrow> int \<Rightarrow> int option \<Rightarrow> error + int" where
  \<comment> \<open>\<open>Field(default=d, ge=lo, le=hi)\<close> on an int field\<close>
  "Field d lo hi given =
     (case given of
        None \<Rightarrow> Inr d
      | Some v \<Rightarrow> if lo \<le> v \<and> v \<le> hi then Inr v else Inl ValidationError)"

definition MockExamRequest :: "mock_exam_body \<Rightarrow> error + mock_exam_request" where
  "MockExamRequest body =
     (case Field 40 10 100 (body_number_of_questions body) of
        Inl err \<Rightarrow> Inl err
      | Inr n \<Rightarrow>
          (case Field 60 15 180 (body_time_limit_minutes body) of
             Inl err \<Rightarrow> Inl err
           | Inr t \<Rightarrow>
               Inr \<lparr>req_exam_type = body_exam_type body, req_subject = body_subject body,
                    req_year = body_year body, number_of_questions = n,
                    req_time_limit_minutes = t\<rparr>))"

record mock_exam_response =
  resp_exam_id :: nat
  resp_exam_type :: string
  resp_subject :: string
  resp_total_questions :: nat
  resp_time_limit_minutes :: int
  resp_questions :: "exam_question list"
  resp_started_at :: timestamp

definition SAMPLE_QUESTIONS :: "(string \<times> stored_question list) list" where
  "SAMPLE_QUESTIONS =
     [(''Mathematics'',
       [\<lparr>sq_question = ''Simplify: 3x + 5x - 2x'',
         sq_options = [(''A'', ''6x''), (''B'', ''8x''), (''C'', ''10x''), (''D'', ''5x'')],
         sq_correct_answer = Some ''A'', sq_topic = Some ''Algebraic Processes''\<rparr>,
        \<lparr>sq_question = ''What is the square root of 144?'',
         sq_options = [(''A'', ''10''), (''B'', ''11''), (''C'', ''12''), (''D'', ''13'')],
         sq_correct_answer = Some ''C'', sq_topic = Some ''Number and Numeration''\<rparr>,
        \<lparr>sq_question = ''Solve for x: 2x + 5 = 15'',
         sq_options = [(''A'', ''3''), (''B'', ''4''), (''C'', ''5''), (''D'', ''6'')],
         sq_correct_answer = Some ''C'', sq_topic = Some ''Linear Equations''\<rparr>]),
      (''English Language'',
       [\<lparr>sq_question = ''Choose the correct spelling:'',
         sq_options = [(''A'', ''Recieve''), (''B'', ''Receive''), (''C'', ''Receeve''),
                       (''D'', ''Recive'')],
         sq_correct_answer = Some ''B'', sq_topic = Some ''Spelling''\<rparr>])]"

definition specific_year :: "string option \<Rightarrow> string option" where
  \<comment> \<open>\<open>request.year and request.year != "Random Mix"\<close>: the year to filter on, if any\<close>
  "specific_year y =
     (case y of
        None \<Rightarrow> None
      | Some v \<Rightarrow> if v \<noteq> [] \<and> v \<noteq> ''Random Mix'' then Some v else None)"

definition questions_pool_db :: "db \<Rightarrow> mock_exam_request \<Rightarrow> past_question list" where
  "questions_pool_db d request =
     filter (\<lambda>pq. pq_exam_type pq = req_exam_type request
                 \<and> pq_subject pq = req_subject request
                 \<and> pq_correct_answer pq \<noteq> None
                 \<and> (case specific_year (req_year request) of
                       None \<Rightarrow> True
                     | Some v \<Rightarrow> pq_year pq = v))
       (past_questions d)"

definition int_or :: "int \<Rightarrow> int \<Rightarrow> int" where
  \<comment> \<open>\<open>x or d\<close> on ints: \<open>0\<close> is falsy\<close>
  "int_or x d = (if x = 0 then d else x)"

definition str_or :: "string option \<Rightarrow> string \<Rightarrow> string" where
  \<comment> \<open>\<open>x or d\<close> on an optional string: \<open>None\<close> and the empty string are falsy\<close>
  "str_or x d = (case x of None \<Rightarrow> d | Some v \<Rightarrow> if v = [] then d else v)"

definition num_questions :: "mock_exam_request \<Rightarrow> int" where
  "num_questions request = int_or (number_of_questions request) 50"

definition positions :: "'a list \<Rightarrow> nat list" where
  \<comment> \<open>the numbers \<open>enumerate(xs, 1)\<close> pairs with the elements of \<open>xs\<close>\<close>
  "positions xs = [1..<Suc (length xs)]"

definition new_exam_attempt ::
  "timestamp \<Rightarrow> nat \<Rightarrow> mock_exam_request \<Rightarrow> db \<Rightarrow> stored_question list \<Rightarrow>
   string option list \<Rightarrow> int \<Rightarrow> nat \<Rightarrow> exam_attempt" where
  "new_exam_attempt now current_user request d stored key limit n =
     \<lparr>ea_id = next_id (map ea_id (exam_attempts d)),
      user_id = current_user,
      exam_type = req_exam_type request,
      subject = req_subject request,
      year = req_year request,
      questions = stored,
      user_answers = [],
      correct_answers = zip (map int (positions key)) key,
      time_limit_minutes = limit,
      time_taken_seconds = 0,
      total_questions = n,
      correct_count = 0,
      score_percentage = 0,
      weak_topics = None,
      started_at = now,
      completed_at = None\<rparr>"

definition exam_response ::
  "exam_attempt \<Rightarrow> mock_exam_request \<Rightarrow> exam_question list \<Rightarrow> int \<Rightarrow> mock_exam_response" where
  "exam_response exam_attempt request exam_questions limit =
     \<lparr>resp_exam_id = ea_id exam_attempt,
      resp_exam_type = req_exam_type request,
      resp_subject = req_subject request,
      resp_total_questions = length exam_questions,
      resp_time_limit_minutes = limit,
      resp_questions = exam_questions,
      resp_started_at = started_at exam_attempt\<rparr>"

definition db_add_exam :: "exam_attempt \<Rightarrow> db \<Rightarrow> db" where
  "db_add_exam exam_attempt d = d\<lparr>exam_attempts := exam_attempts d @ [exam_attempt]\<rparr>"

definition create_mock_exam ::
  "(nat \<Rightarrow> nat) \<Rightarrow> timestamp \<Rightarrow> nat \<Rightarrow> mock_exam_request \<Rightarrow> db \<Rightarrow>
   (error + mock_exam_response) \<times> db" where
  "create_mock_exam rnd now current_user request d =
     (let pool_db = questions_pool_db d request
      in if pool_db \<noteq> [] then
           (case random_sample rnd pool_db
                   (min (num_questions request) (int (length pool_db))) of
              Inl err \<Rightarrow> (Inl err, d)
            | Inr selected_past_questions \<Rightarrow>
                let exam_questions =
                      map2 (\<lambda>i pq. \<lparr>question_number = i,
                                     question_text = pq_question_text pq,
                                     eq_options = pq_options pq,
                                     correct_answer = None\<rparr>)
                        (positions selected_past_questions) selected_past_questions;
                    questions_for_storage =
                      map (\<lambda>pq. \<lparr>sq_question = pq_question_text pq,
                                  sq_options = pq_options pq,
                                  sq_correct_answer = pq_correct_answer pq,
                                  sq_topic = Some (str_or (pq_topic pq) ''Unknown'')\<rparr>)
                        selected_past_questions;
                    limit = int_or (req_time_limit_minutes request) 90;
                    exam_attempt =
                      new_exam_attempt now current_user request d questions_for_storage
                        (map pq_correct_answer selected_past_questions) limit
                        (length exam_questions)
                in (Inr (exam_response exam_attempt request exam_questions limit),
                    db_add_exam exam_attempt d))
         else
           let questions_pool = dict_get_default SAMPLE_QUESTIONS (req_subject request) []
           in if questions_pool = [] then
                (Inl (HTTPException HTTP_400_BAD_REQUEST
                        (''No questions available for '' @ req_subject request @ '' ''
                         @ req_exam_type request
                         @ ''. Please upload past questions first or try a different subject.'')),
                 d)
              else
                (case random_sample rnd questions_pool
                        (min (number_of_questions request) (int (length questions_pool))) of
                   Inl err \<Rightarrow> (Inl err, d)
                 | Inr selected_questions \<Rightarrow>
                     let exam_questions =
                           map2 (\<lambda>i q. \<lparr>question_number = i,
                                         question_text = sq_question q,
                                         eq_options = sq_options q,
                                         correct_answer = None\<rparr>)
                             (positions selected_questions) selected_questions;
                         exam_attempt =
                           new_exam_attempt now current_user request d selected_questions
                             (map sq_correct_answer selected_questions)
                             (req_time_limit_minutes request) (length selected_questions)
                     in (Inr (exam_response exam_attempt request exam_questions
                                (req_time_limit_minutes request)),
                         db_add_exam exam_attempt d)))"

section \<open>Exam grader\<close>

record exam_submission_request =
  sub_exam_id :: nat
  answers :: "(int \<times> string) list"
  sub_time_taken_seconds :: int

record detailed_result =
  dr_question_number :: int
  dr_question_text :: string
  dr_user_answer :: string
  dr_correct_answer :: "string option"
  dr_is_correct :: bool
  dr_topic :: string

record exam_result_response =
  res_exam_id :: nat
  res_total_questions :: nat
  res_correct_count :: nat
  res_score_percentage :: nat
  res_time_taken_seconds :: int
  res_weak_topics :: "string list"
  res_detailed_results :: "detailed_result list"
  res_recommendations :: "string list"

text \<open>The three local variables the grading loop updates.\<close>

record grading =
  g_correct_count :: nat
  g_detailed_results :: "detailed_result list"
  g_weak_topics :: "(string \<times> nat) list"

definition grading_init :: grading where
  "grading_init = \<lparr>g_correct_count = 0, g_detailed_results = [], g_weak_topics = []\<rparr>"

definition answer_key_get :: "(int \<times> string option) list \<Rightarrow> int \<Rightarrow> string option" where
  \<comment> \<open>\<open>exam.correct_answers.get(str(q_num))\<close>: \<open>None\<close> for a missing key\<close>
  "answer_key_get key q_num = (case dict_get key q_num of None \<Rightarrow> None | Some v \<Rightarrow> v)"

definition topic_of :: "stored_question \<Rightarrow> string" where
  \<comment> \<open>\<open>question.get("topic", "Unknown")\<close>\<close>
  "topic_of question = (case sq_topic question of None \<Rightarrow> ''Unknown'' | Some t \<Rightarrow> t)"

definition count_miss :: "(string \<times> nat) list \<Rightarrow> string \<Rightarrow> (string \<times> nat) list" where
  \<comment> \<open>\<open>weak_topics[topic] = weak_topics.get(topic, 0) + 1\<close>\<close>
  "count_miss weak topic = dict_set weak topic (dict_get_default weak topic 0 + 1)"

definition grade_answer :: "exam_attempt \<Rightarrow> int \<times> string \<Rightarrow> grading \<Rightarrow> error + grading" where
  \<comment> \<open>one turn of the loop over \<open>submission.answers.items()\<close>\<close>
  "grade_answer exam item g =
     (let q_num = fst item; user_answer = snd item;
          correct_answer = answer_key_get (correct_answers exam) q_num;
          is_correct = (Some user_answer = correct_answer)
      in case (if is_correct then Inr (g\<lparr>g_correct_count := g_correct_count g + 1\<rparr>)
               else case py_index (questions exam) (q_num - 1) of
                      Inl err \<Rightarrow> Inl err
                    | Inr question \<Rightarrow>
                        Inr (g\<lparr>g_weak_topics := count_miss (g_weak_topics g) (topic_of question)\<rparr>)) of
           Inl err \<Rightarrow> Inl err
         | Inr g1 \<Rightarrow>
             (case py_index (questions exam) (q_num - 1) of
                Inl err \<Rightarrow> Inl err
              | Inr question \<Rightarrow>
                  Inr (g1\<lparr>g_detailed_results := g_detailed_results g1 @
                         [\<lparr>dr_question_number = q_num,
                           dr_question_text = sq_question question,
                           dr_user_answer = user_answer,
                           dr_correct_answer = correct_answer,
                           dr_is_correct = is_correct,
                           dr_topic = topic_of question\<rparr>]\<rparr>)))"

fun grade_loop :: "exam_attempt \<Rightarrow> (int \<times> string) list \<Rightarrow> grading \<Rightarrow> error + grading" where
  "grade_loop exam [] g = Inr g"
| "grade_loop exam (item # items) g =
     (case grade_answer exam item g of
        Inl err \<Rightarrow> Inl err
      | Inr g' \<Rightarrow> grade_loop exam items g')"

definition weak_topics_names_of :: "(string \<times> nat) list \<Rightarrow> string list" where
  \<comment> \<open>\<open>[topic for topic, _ in sorted(...)[:3]]\<close>\<close>
  "weak_topics_names_of weak = map fst (take 3 (sorted_by_count_desc weak))"

definition recommendations_of :: "string \<Rightarrow> nat \<Rightarrow> string list \<Rightarrow> string list" where
  "recommendations_of subj score names =
     (if score < 50
      then [''Focus on improving your understanding of '' @ subj @ '' fundamentals'']
      else [])
     @ (if names \<noteq> [] then [''Spend more time studying: '' @ join '', '' names] else [])
     @ (if 70 \<le> score then [''Great job! Keep practicing to maintain this level''] else [])"

definition find_exam :: "db \<Rightarrow> nat \<Rightarrow> nat \<Rightarrow> exam_attempt option" where
  "find_exam d exam_id current_user =
     find (\<lambda>e. ea_id e = exam_id \<and> user_id e = current_user) (exam_attempts d)"


definition submit_exam ::
  "timestamp \<Rightarrow> nat \<Rightarrow> exam_submission_request \<Rightarrow> db \<Rightarrow>
   (error + exam_result_response) \<times> db" where
  "submit_exam now current_user submission d =
     (case find_exam d (sub_exam_id submission) current_user of
        None \<Rightarrow> (Inl (HTTPException HTTP_404_NOT_FOUND ''Exam not found''), d)
      | Some exam \<Rightarrow>
          if completed_at exam \<noteq> None then
            (Inl (HTTPException HTTP_400_BAD_REQUEST ''Exam already submitted''), d)
          else
            (case grade_loop exam (answers submission) grading_init of
               Inl err \<Rightarrow> (Inl err, d)
             | Inr g \<Rightarrow>
                 (case score_percentage_of (g_correct_count g) (total_questions exam) of
                    Inl err \<Rightarrow> (Inl err, d)
                  | Inr score \<Rightarrow>
                      let weak_topics_names = weak_topics_names_of (g_weak_topics g);
                          d1 = d\<lparr>exam_attempts :=
                                 update_first
                                   (\<lambda>e. ea_id e = sub_exam_id submission \<and> user_id e = current_user)
                                   (\<lambda>e. e\<lparr>user_answers := answers submission,
                                           time_taken_seconds := sub_time_taken_seconds submission,
                                           correct_count := g_correct_count g,
                                           score_percentage := score,
                                           weak_topics := Some weak_topics_names,
                                           completed_at := Some now\<rparr>)
                                   (exam_attempts d)\<rparr>;
                          d2 = d1\<lparr>user_subjects :=
                                 update_first
                                   (\<lambda>us. us_user_id us = current_user \<and> subject_name us = subject exam)
                                   (\<lambda>us. us\<lparr>total_questions_attempted :=
                                              total_questions_attempted us + int (total_questions exam),
                                            us_correct_answers :=
                                              us_correct_answers us + int (g_correct_count g)\<rparr>)
                                   (user_subjects d1)\<rparr>
                      in (Inr \<lparr>res_exam_id = ea_id exam,
                               res_total_questions = total_questions exam,
                               res_correct_count = g_correct_count g,
                               res_score_percentage = score,
                               res_time_taken_seconds = sub_time_taken_seconds submission,
                               res_weak_topics = weak_topics_names,
                               res_detailed_results = g_detailed_results g,
                               res_recommendations =
                                 recommendations_of (subject exam) score weak_topics_names\<rparr>,
                          d2))))"

section \<open>The other writers of the subject counters\<close>




section \<open>Study streak\<close>

fun streak_loop :: "int list \<Rightarrow> nat \<Rightarrow> int \<Rightarrow> nat" where
  "streak_loop [] streak current_date = streak"
| "streak_loop (activity_date # rest) streak current_date =
     (if activity_date = current_date \<or> activity_date = current_date - int streak
      then streak_loop rest (streak + 1) activity_date
      else streak)"

definition activity_dates :: "nat \<Rightarrow> db \<Rightarrow> int list" where
  \<comment> \<open>the distinct dates of the user's history rows, latest first\<close>
  "activity_dates uid d =
     rev (sort (remdups (map (\<lambda>q. date_of (solved_at q))
                           (filter (\<lambda>q. qh_user_id q = uid) (question_histories d)))))"

definition calculate_study_streak :: "timestamp \<Rightarrow> nat \<Rightarrow> db \<Rightarrow> nat" where
  "calculate_study_streak now uid d =
     (if activity_dates uid d = [] then 0
      else streak_loop (activity_dates uid d) 0 (date_of now))"

section \<open>The lists a bank-path exam is built from\<close>

text \<open>
  The two lists the loop over \<open>enumerate(selected_past_questions, 1)\<close> appends to:
  \<open>exam_questions\<close>, sent to the student, and \<open>questions_for_storage\<close>, kept in the
  attempt.
\<close>

definition student_view :: "past_question list \<Rightarrow> exam_question list" where
  "student_view selected =
     map2 (\<lambda>i pq. \<lparr>question_number = i, question_text = pq_question_text pq,
                    eq_options = pq_options pq, correct_answer = None\<rparr>)
       (positions selected) selected"

definition snapshot :: "past_question list \<Rightarrow> stored_question list" where
  "snapshot selected =
     map (\<lambda>pq. \<lparr>sq_question = pq_question_text pq, sq_options = pq_options pq,
                 sq_correct_answer = pq_correct_answer pq,
                 sq_topic = Some (str_or (pq_topic pq) ''Unknown'')\<rparr>) selected"

section \<open>Comparing subject rows\<close>




section \<open>Vocabulary of the grading statements\<close>

text \<open>
  \<open>is_match\<close>: the submitted label equals the key's label for the position.
  \<open>missed_topics\<close>: the topics of the submitted positions that are not matches, in the
  order of the answer map. \<open>in_range\<close>: every submitted position lies in
  \<open>[1, len(questions)]\<close>.
\<close>

definition is_match :: "exam_attempt \<Rightarrow> int \<times> string \<Rightarrow> bool" where
  "is_match exam item = (Some (snd item) = answer_key_get (correct_answers exam) (fst item))"

definition missed_topics :: "exam_attempt \<Rightarrow> (int \<times> string) list \<Rightarrow> string list" where
  "missed_topics exam items =
     concat (map (\<lambda>item. if is_match exam item then []
                          else (case py_index (questions exam) (fst item - 1) of
                                  Inl err \<Rightarrow> []
                                | Inr question \<Rightarrow> [topic_of question])) items)"

text \<open>
  The ranking in the spec's words: a miss counter per topic (\<open>count_list\<close>), the topics
  in the order of first encounter (\<open>first_seen\<close>), sorted by miss count, largest first,
  by a stable sort.
\<close>

definition first_seen :: "'a list \<Rightarrow> 'a list" where
  "first_seen xs = rev (remdups (rev xs))"

definition rank_topics :: "string list \<Rightarrow> string list" where
  "rank_topics misses =
     map fst (sort_key (\<lambda>x. - int (snd x))
                (map (\<lambda>t. (t, count_list misses t)) (first_seen misses)))"

definition in_range :: "exam_attempt \<Rightarrow> (int \<times> string) list \<Rightarrow> bool" where
  "in_range exam items =
     list_all (\<lambda>item. 1 \<le> fst item \<and> fst item \<le> int (length (questions exam))) items"

section \<open>Concrete stores\<close>

definition empty_db :: db where
  "empty_db = \<lparr>past_questions = [], exam_attempts = [], user_subjects = [],
               question_histories = []\<rparr>"

definition history_on :: "nat \<Rightarrow> nat \<Rightarrow> int \<Rightarrow> question_history" where
  \<comment> \<open>a question solved by \<open>uid\<close> at noon of day \<open>day\<close>\<close>
  "history_on n uid day =
     \<lparr>qh_id = n, qh_user_id = uid, qh_question_text = ''2 + 2'',
      qh_subject = Some ''Mathematics'', solved_at = day * 86400 + 43200\<rparr>"

definition three_day_db :: db where
  \<comment> \<open>user 1 solved a question on each of the days 98, 99 and 100\<close>
  "three_day_db =
     empty_db\<lparr>question_histories := [history_on 1 1 98, history_on 2 1 99, history_on 3 1 100]\<rparr>"

definition q_algebra :: stored_question where
  "q_algebra = \<lparr>sq_question = ''3x + 5x - 2x'', sq_options = [(''A'', ''6x''), (''B'', ''8x'')],
                 sq_correct_answer = Some ''A'', sq_topic = Some ''Algebra''\<rparr>"

definition q_geometry :: stored_question where
  "q_geometry = \<lparr>sq_question = ''Angles of a triangle'', sq_options = [(''A'', ''90''), (''C'', ''180'')],
                  sq_correct_answer = Some ''C'', sq_topic = Some ''Geometry''\<rparr>"

definition exam_two :: exam_attempt where
  \<comment> \<open>an attempt of user 1 with two questions, not yet submitted\<close>
  "exam_two =
     \<lparr>ea_id = 1, user_id = 1, exam_type = ''WAEC'', subject = ''Mathematics'', year = None,
      questions = [q_algebra, q_geometry], user_answers = [],
      correct_answers = [(1, Some ''A''), (2, Some ''C'')],
      time_limit_minutes = 60, time_taken_seconds = 0, total_questions = 2,
      correct_count = 0, score_percentage = 0, weak_topics = None,
      started_at = 1000, completed_at = None\<rparr>"

definition maths_row :: user_subject where
  "maths_row = \<lparr>us_id = 1, us_user_id = 1, subject_name = ''Mathematics'',
                 total_questions_attempted = 10, us_correct_answers = 5\<rparr>"

definition db_two :: db where
  "db_two = empty_db\<lparr>exam_attempts := [exam_two], user_subjects := [maths_row]\<rparr>"

definition submission_first :: exam_submission_request where
  \<comment> \<open>position 1 answered, correctly; position 2 left out\<close>
  "submission_first = \<lparr>sub_exam_id = 1, answers = [(1, ''A'')], sub_time_taken_seconds = 300\<rparr>"

definition exam_two_graded :: exam_attempt where
  "exam_two_graded =
     exam_two\<lparr>user_answers := [(1, ''A'')], time_taken_seconds := 300, correct_count := 1,
              score_percentage := 50, weak_topics := Some [], completed_at := Some 2000\<rparr>"

definition db_two_graded :: db where
  "db_two_graded =
     empty_db\<lparr>exam_attempts := [exam_two_graded],
              user_subjects := [maths_row\<lparr>total_questions_attempted := 12,
                                         us_correct_answers := 6\<rparr>]\<rparr>"

definition physics_request :: mock_exam_request where
  "physics_request = \<lparr>req_exam_type = ''WAEC'', req_subject = ''Physics'', req_year = None,
                       number_of_questions = 10, req_time_limit_minutes = 30\<rparr>"

definition submission_second :: exam_submission_request where
  "submission_second =
     \<lparr>sub_exam_id = 1, answers = [(1, ''B''), (2, ''C'')], sub_time_taken_seconds = 900\<rparr>"

definition result_first :: exam_result_response where
  "result_first =
     \<lparr>res_exam_id = 1, res_total_questions = 2, res_correct_count = 1,
      res_score_percentage = 50, res_time_taken_seconds = 300, res_weak_topics = [],
      res_detailed_results =
        [\<lparr>dr_question_number = 1, dr_question_text = ''3x + 5x - 2x'', dr_user_answer = ''A'',
          dr_correct_answer = Some ''A'', dr_is_correct = True, dr_topic = ''Algebra''\<rparr>],
      res_recommendations = []\<rparr>"

definition pq_one :: past_question where
  "pq_one = \<lparr>pq_exam_type = ''WAEC'', pq_subject = ''Mathematics'', pq_year = ''2023'',
              pq_question_number = 1, pq_question_text = ''2 + 2'',
              pq_options = [(''A'', ''4''), (''B'', ''5'')],
              pq_correct_answer = Some ''A'', pq_topic = None\<rparr>"

definition bank_db :: db where
  \<comment> \<open>three WAEC Mathematics entries, the second one without an answer\<close>
  "bank_db =
     empty_db\<lparr>past_questions :=
       [pq_one,
        pq_one\<lparr>pq_question_number := 2, pq_correct_answer := None\<rparr>,
        pq_one\<lparr>pq_question_number := 3, pq_year := ''2022''\<rparr>]\<rparr>"

definition bank45_db :: db where
  \<comment> \<open>a bank with 45 answered WAEC Mathematics entries\<close>
  "bank45_db = empty_db\<lparr>past_questions := replicate 45 pq_one\<rparr>"

definition body_ten :: mock_exam_body where
  "body_ten = \<lparr>body_exam_type = ''WAEC'', body_subject = ''Mathematics'', body_year = None,
                body_number_of_questions = Some 10, body_time_limit_minutes = Some 30\<rparr>"

definition request_ten :: mock_exam_request where
  "request_ten = \<lparr>req_exam_type = ''WAEC'', req_subject = ''Mathematics'', req_year = None,
                   number_of_questions = 10, req_time_limit_minutes = 30\<rparr>"

definition body_omitted :: mock_exam_body where
  \<comment> \<open>the caller leaves both optional numbers out\<close>
  "body_omitted = \<lparr>body_exam_type = ''WAEC'', body_subject = ''Mathematics'', body_year = None,
                    body_number_of_questions = None, body_time_limit_minutes = None\<rparr>"

definition request_omitted :: mock_exam_request where
  "request_omitted = \<lparr>req_exam_type = ''WAEC'', req_subject = ''Mathematics'', req_year = None,
                       number_of_questions = 40, req_time_limit_minutes = 60\<rparr>"

definition q_with_topic :: "string option \<Rightarrow> stored_question" where
  "q_with_topic t = \<lparr>sq_question = ''Q'', sq_options = [(''A'', ''yes''), (''B'', ''no'')],
                      sq_correct_answer = Some ''A'', sq_topic = t\<rparr>"

definition exam_eight :: exam_attempt where
  \<comment> \<open>eight questions; the sixth has no topic\<close>
  "exam_eight =
     exam_two\<lparr>questions := map q_with_topic
                 [Some ''Trig'', Some ''Algebra'', Some ''Geometry'', Some ''Algebra'',
                  Some ''Geometry'', None, Some ''Algebra'', Some ''Geometry''],
              correct_answers := [(1, Some ''A''), (2, Some ''A''), (3, Some ''A''),
                 (4, Some ''A''), (5, Some ''A''), (6, Some ''A''), (7, Some ''A''),
                 (8, Some ''A'')],
              total_questions := 8\<rparr>"

definition db_eight :: db where
  "db_eight = empty_db\<lparr>exam_attempts := [exam_eight]\<rparr>"

definition submission_eight :: exam_submission_request where
  \<comment> \<open>every position answered, every answer wrong\<close>
  "submission_eight =
     \<lparr>sub_exam_id = 1,
      answers = [(1, ''B''), (2, ''B''), (3, ''B''), (4, ''B''), (5, ''B''), (6, ''B''),
                 (7, ''B''), (8, ''B'')],
      sub_time_taken_seconds = 1200\<rparr>"


section \<open>Score percentage\<close>

lemma bit_length_numeral [simp]:
  "bit_length (numeral k) = Suc (bit_length (numeral k div 2))"
  by (subst bit_length.simps) simp

lemma bit_length_0 [simp]: "bit_length 0 = 0"
  by (simp add: bit_length.simps)

lemma bit_length_1 [simp]: "bit_length (Suc 0) = 1"
  by (simp add: bit_length.simps)

lemmas float_defs =
  score_percentage_of_def int_truediv_def round_to_double_def ilog2_ratio_def
  round_half_even_def float_mul_int_def int_of_float_def Let_def

lemma score_percentage_7_of_9: "score_percentage_of 7 9 = Inr 77"
  by (simp add: float_defs)

lemma score_percentage_zero_total: "score_percentage_of c 0 = Inl ZeroDivisionError"
  by (simp add: score_percentage_of_def int_truediv_def)

text \<open>
  C4. The score is the truncation of the float product \<open>(correct_count / total) * 100\<close>,
  which is not always \<open>\<lfloor>100 * correct_count / total\<rfloor>\<close>: for 29 correct answers out of
  100 the quotient rounds to a double just below 0.29, the product to
  28.999999999999996, and the score is 28 where the exact percentage is 29.
\<close>

theorem score_percentage_29_of_100:
  "score_percentage_of 29 100 = Inr 28 \<and> (100 * 29) div 100 = (29 :: nat)"
  by (simp add: float_defs)

section \<open>Study streak: properties\<close>

lemma streak_loop_three_days:
  "streak_loop (today # (today - 1) # (today - 2) # rest) 0 today = 2"
  by simp

lemma activity_dates_three_day_db: "activity_dates 1 three_day_db = [100, 99, 98]"
  by (simp add: activity_dates_def three_day_db_def empty_db_def history_on_def date_of_def)

text \<open>
  C9. With activity on today (day 100) and on the two days before it, the walk counts
  today and yesterday, then looks for the date \<open>streak\<close> days before yesterday instead of
  one day before it, and stops: the streak is 2, not 3.
\<close>

theorem calculate_study_streak_three_days:
  "calculate_study_streak (100 * 86400 + 50000) 1 three_day_db = 2"
  using activity_dates_three_day_db by (simp add: calculate_study_streak_def date_of_def)

section \<open>Queries and updates of the store\<close>

lemma find_update_first:
  "find P xs = Some x \<Longrightarrow> P (f x) \<Longrightarrow> find P (update_first P f xs) = Some (f x)"
  by (induction xs) (auto split: if_splits)


lemma length_update_first [simp]: "length (update_first P f xs) = length xs"
  by (induction xs) auto

section \<open>Grading happens once\<close>

lemmas grader_defs =
  submit_exam_def find_exam_def grading_init_def grade_answer_def answer_key_get_def
  py_index_def weak_topics_names_of_def sorted_by_count_desc_def recommendations_of_def
  topic_of_def count_miss_def dict_get_default_def HTTP_400_BAD_REQUEST_def
  HTTP_404_NOT_FOUND_def Let_def

lemmas store_defs =
  db_two_def empty_db_def exam_two_def submission_first_def submission_second_def
  q_algebra_def q_geometry_def db_two_graded_def exam_two_graded_def maths_row_def

lemma score_percentage_1_of_2: "score_percentage_of 1 2 = Inr 50"
  by (simp add: float_defs)

lemma submit_db_two:
  "submit_exam 2000 1 submission_first db_two = (Inr result_first, db_two_graded)"
  by (simp add: grader_defs store_defs result_first_def score_percentage_1_of_2[simplified])

lemma submit_exam_already_submitted:
  "find_exam d (sub_exam_id s) u = Some exam \<Longrightarrow> completed_at exam = Some t \<Longrightarrow>
   submit_exam now u s d =
     (Inl (HTTPException HTTP_400_BAD_REQUEST ''Exam already submitted''), d)"
  by (simp add: submit_exam_def)

lemma submit_exam_sets_completed:
  assumes "submit_exam now u s d = (Inr r, d')"
  shows "\<exists>exam'. find_exam d' (sub_exam_id s) u = Some exam' \<and> completed_at exam' = Some now"
proof -
  from assms obtain exam where ex: "find_exam d (sub_exam_id s) u = Some exam"
    by (auto simp: submit_exam_def split: option.splits)
  from assms ex obtain f us' where
    d': "d' = d\<lparr>exam_attempts :=
                  update_first (\<lambda>e. ea_id e = sub_exam_id s \<and> user_id e = u) f (exam_attempts d),
                user_subjects := us'\<rparr>"
    and f: "\<And>e. ea_id (f e) = ea_id e \<and> user_id (f e) = user_id e
                 \<and> completed_at (f e) = Some now"
    by (auto simp: submit_exam_def Let_def split: option.splits if_splits sum.splits)
  from ex have found:
    "find (\<lambda>e. ea_id e = sub_exam_id s \<and> user_id e = u) (exam_attempts d) = Some exam"
    by (simp add: find_exam_def)
  then have "ea_id exam = sub_exam_id s \<and> user_id exam = u"
    by (auto simp: find_Some_iff)
  with found have "find_exam d' (sub_exam_id s) u = Some (f exam)"
    unfolding find_exam_def d' using f by (simp add: find_update_first)
  with f show ?thesis by blast
qed

text \<open>
  C1. A submission for an attempt whose \<open>completed_at\<close> is set is rejected with
  "Exam already submitted" whatever its answers are, and the store (so every field of the
  attempt) stays as it was. A successful grading sets \<open>completed_at\<close>, so every later
  submission for the same attempt, with any payload, is rejected: an attempt is graded at
  most once.
\<close>

theorem submit_exam_graded_once:
  "(\<forall>exam t. find_exam d (sub_exam_id s) u = Some exam \<and> completed_at exam = Some t \<longrightarrow>
      submit_exam now u s d =
        (Inl (HTTPException HTTP_400_BAD_REQUEST ''Exam already submitted''), d))
   \<and> (\<forall>r d' now' s'. submit_exam now u s d = (Inr r, d') \<and> sub_exam_id s' = sub_exam_id s \<longrightarrow>
      submit_exam now' u s' d' =
        (Inl (HTTPException HTTP_400_BAD_REQUEST ''Exam already submitted''), d'))"
proof (intro conjI allI impI)
  fix exam t
  assume "find_exam d (sub_exam_id s) u = Some exam \<and> completed_at exam = Some t"
  then show "submit_exam now u s d =
      (Inl (HTTPException HTTP_400_BAD_REQUEST ''Exam already submitted''), d)"
    by (simp add: submit_exam_already_submitted)
next
  fix r d' now' and s' :: exam_submission_request
  assume a: "submit_exam now u s d = (Inr r, d') \<and> sub_exam_id s' = sub_exam_id s"
  then obtain exam' where
    "find_exam d' (sub_exam_id s') u = Some exam'" "completed_at exam' = Some now"
    using submit_exam_sets_completed [of now u s d r d'] by auto
  then show "submit_exam now' u s' d' =
      (Inl (HTTPException HTTP_400_BAD_REQUEST ''Exam already submitted''), d')"
    by (rule submit_exam_already_submitted)
qed

theorem submit_exam_graded_once_witness:
  "find_exam db_two_graded (sub_exam_id submission_second) 1 = Some exam_two_graded
   \<and> completed_at exam_two_graded = Some 2000
   \<and> submit_exam 3000 1 submission_second db_two_graded =
       (Inl (HTTPException HTTP_400_BAD_REQUEST ''Exam already submitted''), db_two_graded)
   \<and> submit_exam 2000 1 submission_first db_two = (Inr result_first, db_two_graded)
   \<and> sub_exam_id submission_second = sub_exam_id submission_first"
proof -
  have found: "find_exam db_two_graded (sub_exam_id submission_second) 1 = Some exam_two_graded"
    by (simp add: find_exam_def store_defs)
  have completed: "completed_at exam_two_graded = Some 2000"
    by (simp add: store_defs)
  have same: "sub_exam_id submission_second = sub_exam_id submission_first"
    by (simp add: store_defs)
  have "submit_exam 3000 1 submission_second db_two_graded =
      (Inl (HTTPException HTTP_400_BAD_REQUEST ''Exam already submitted''), db_two_graded)"
    using submit_exam_graded_once [of db_two_graded submission_second 1 3000] found completed
    by blast
  moreover have "submit_exam 3000 1 submission_second db_two_graded =
      (Inl (HTTPException HTTP_400_BAD_REQUEST ''Exam already submitted''), db_two_graded)"
    using submit_exam_graded_once [of db_two submission_first 1 2000] submit_db_two same
    by blast
  ultimately show ?thesis
    using found completed same submit_db_two by blast
qed

section \<open>No questions available\<close>

text \<open>
  C7. When no bank entry matches the request and the built-in sample table has no
  question for the subject, \<open>create_mock_exam\<close> raises the HTTP 400 exception that tells
  the caller to upload questions or pick another subject (a client error, not a 5xx
  fault), and the store is unchanged: no attempt is persisted.
\<close>

theorem create_mock_exam_no_questions:
  assumes "questions_pool_db d request = []"
    and "dict_get_default SAMPLE_QUESTIONS (req_subject request) [] = []"
  shows "create_mock_exam rnd now u request d =
           (Inl (HTTPException 400
                   (''No questions available for '' @ req_subject request @ '' ''
                    @ req_exam_type request
                    @ ''. Please upload past questions first or try a different subject.'')),
            d)"
  using assms by (simp add: create_mock_exam_def HTTP_400_BAD_REQUEST_def)

theorem create_mock_exam_no_questions_witness:
  "questions_pool_db empty_db physics_request = []
   \<and> dict_get_default SAMPLE_QUESTIONS (req_subject physics_request) [] = []
   \<and> create_mock_exam (\<lambda>i. 0) 1000 1 physics_request empty_db =
       (Inl (HTTPException 400
          ''No questions available for Physics WAEC. Please upload past questions first or try a different subject.''),
        empty_db)
   \<and> exam_attempts empty_db = []"
proof -
  have pool: "questions_pool_db empty_db physics_request = []"
    by (simp add: questions_pool_db_def empty_db_def)
  have sample: "dict_get_default SAMPLE_QUESTIONS (req_subject physics_request) [] = []"
    by (simp add: dict_get_default_def SAMPLE_QUESTIONS_def physics_request_def)
  show ?thesis
    using create_mock_exam_no_questions [OF pool sample, of "\<lambda>i. 0" 1000 1] pool sample
    by (simp add: physics_request_def empty_db_def)
qed

section \<open>Exams drawn from the question bank\<close>

lemma length_draw: "k \<le> length population \<Longrightarrow> length (draw rnd population k) = k"
proof (induction k arbitrary: rnd population)
  case 0
  then show ?case by simp
next
  case (Suc k)
  then have ne: "population \<noteq> []" by auto
  let ?j = "rnd 0 mod length population"
  from ne have "?j < length population" by simp
  then have "length (take ?j population @ drop (Suc ?j) population) = length population - 1"
    by auto
  with Suc.prems have "k \<le> length (take ?j population @ drop (Suc ?j) population)"
    by linarith
  then have "length (draw (\<lambda>i. rnd (Suc i)) (take ?j population @ drop (Suc ?j) population) k) = k"
    by (rule Suc.IH)
  with ne show ?case by (simp add: Let_def)
qed

lemma set_draw: "set (draw rnd population k) \<subseteq> set population"
proof (induction k arbitrary: rnd population)
  case 0
  then show ?case by simp
next
  case (Suc k)
  show ?case
  proof (cases "population = []")
    case True
    then show ?thesis by simp
  next
    case False
    let ?j = "rnd 0 mod length population"
    let ?rest = "take ?j population @ drop (Suc ?j) population"
    from False have j: "?j < length population" by simp
    have "set ?rest \<subseteq> set population"
      by (auto dest: in_set_takeD in_set_dropD)
    with Suc.IH [of "\<lambda>i. rnd (Suc i)" ?rest]
    have "set (draw (\<lambda>i. rnd (Suc i)) ?rest k) \<subseteq> set population"
      by blast
    with False j show ?thesis by (simp add: Let_def)
  qed
qed

lemma MockExamRequest_bounds:
  "MockExamRequest body = Inr request \<Longrightarrow>
     10 \<le> number_of_questions request \<and> number_of_questions request \<le> 100
     \<and> 15 \<le> req_time_limit_minutes request \<and> req_time_limit_minutes request \<le> 180"
  by (auto simp: MockExamRequest_def Field_def split: option.splits if_splits sum.splits)

lemma length_positions [simp]: "length (positions xs) = length xs"
  by (simp add: positions_def del: upt_Suc)

lemma length_student_view [simp]: "length (student_view selected) = length selected"
  by (simp add: student_view_def)

lemma student_view_hidden: "q \<in> set (student_view selected) \<Longrightarrow> correct_answer q = None"
  by (auto simp: student_view_def set_zip)

lemma create_mock_exam_bank:
  fixes rnd :: "nat \<Rightarrow> nat" and d :: db and request :: mock_exam_request
    and now :: timestamp and u :: nat
  assumes "questions_pool_db d request \<noteq> []" and "0 \<le> num_questions request"
  defines "selected \<equiv> draw rnd (questions_pool_db d request)
             (min (nat (num_questions request)) (length (questions_pool_db d request)))"
  defines "limit \<equiv> int_or (req_time_limit_minutes request) 90"
  defines "exam \<equiv> new_exam_attempt now u request d (snapshot selected)
             (map pq_correct_answer selected) limit (length selected)"
  shows "create_mock_exam rnd now u request d =
           (Inr (exam_response exam request (student_view selected) limit), db_add_exam exam d)"
    and "length selected =
           min (nat (num_questions request)) (length (questions_pool_db d request))"
proof -
  let ?pool = "questions_pool_db d request"
  let ?k = "min (num_questions request) (int (length ?pool))"
  from assms(1,2) have k: "0 \<le> ?k" "?k \<le> int (length ?pool)" by auto
  have nk: "nat ?k = min (nat (num_questions request)) (length ?pool)"
    using assms(2) by linarith
  from k have "\<not> (?k < 0 \<or> int (length ?pool) < ?k)" by linarith
  then have "random_sample rnd ?pool ?k = Inr (draw rnd ?pool (nat ?k))"
    unfolding random_sample_def by (rule if_not_P)
  then have rs: "random_sample rnd ?pool ?k = Inr selected"
    by (simp only: nk selected_def)
  show "length selected = min (nat (num_questions request)) (length ?pool)"
    unfolding selected_def by (rule length_draw) simp
  show "create_mock_exam rnd now u request d =
           (Inr (exam_response exam request (student_view selected) limit), db_add_exam exam d)"
    using assms(1) rs
    by (simp add: create_mock_exam_def Let_def exam_def limit_def student_view_def snapshot_def)
qed

lemma num_questions_valid:
  "MockExamRequest body = Inr request \<Longrightarrow> num_questions request = number_of_questions request"
  by (drule MockExamRequest_bounds) (simp add: num_questions_def int_or_def)

lemma time_limit_valid:
  "MockExamRequest body = Inr request \<Longrightarrow>
     int_or (req_time_limit_minutes request) 90 = req_time_limit_minutes request"
  by (drule MockExamRequest_bounds) (simp add: int_or_def)

text \<open>
  C2. On the question-bank path (at least one bank entry matches the validated request)
  \<open>create_mock_exam\<close> succeeds, the student receives
  \<open>min(number_of_questions, number of matching entries)\<close> questions, so fewer than
  requested is not an error, and every question returned has \<open>correct_answer = None\<close>.
\<close>

theorem create_mock_exam_bank_count:
  assumes "MockExamRequest body = Inr request" and "questions_pool_db d request \<noteq> []"
  shows "\<exists>resp d'. create_mock_exam rnd now u request d = (Inr resp, d')
     \<and> length (resp_questions resp) =
         min (nat (number_of_questions request)) (length (questions_pool_db d request))
     \<and> resp_total_questions resp = length (resp_questions resp)
     \<and> (\<forall>q \<in> set (resp_questions resp). correct_answer q = None)"
proof -
  from assms(1) have n: "num_questions request = number_of_questions request"
    by (rule num_questions_valid)
  from assms(1) have nonneg: "0 \<le> num_questions request"
    using MockExamRequest_bounds [of body request] n by simp
  note bank = create_mock_exam_bank(1) [OF assms(2) nonneg, of rnd now u]
    create_mock_exam_bank(2) [OF assms(2) nonneg, of rnd]
  show ?thesis
    using bank student_view_hidden by (simp add: exam_response_def n)
qed

lemma MockExamRequest_body_ten: "MockExamRequest body_ten = Inr request_ten"
  by (simp add: MockExamRequest_def Field_def body_ten_def request_ten_def)

lemma pool_bank_db:
  "questions_pool_db bank_db request_ten = [pq_one, pq_one\<lparr>pq_question_number := 3, pq_year := ''2022''\<rparr>]"
  by (simp add: questions_pool_db_def bank_db_def empty_db_def request_ten_def pq_one_def
      specific_year_def)

theorem create_mock_exam_bank_count_witness:
  "MockExamRequest body_ten = Inr request_ten
   \<and> length (questions_pool_db bank_db request_ten) = 2
   \<and> (\<exists>resp d'. create_mock_exam (\<lambda>i. i) 1000 1 request_ten bank_db = (Inr resp, d')
        \<and> length (resp_questions resp) = 2
        \<and> resp_total_questions resp = 2
        \<and> list_all (\<lambda>q. correct_answer q = None) (resp_questions resp))"
proof -
  have ne: "questions_pool_db bank_db request_ten \<noteq> []"
    by (simp add: pool_bank_db)
  have ten: "number_of_questions request_ten = 10"
    by (simp add: request_ten_def)
  show ?thesis
    using create_mock_exam_bank_count [OF MockExamRequest_body_ten ne, of "\<lambda>i. i" 1000 1]
    by (auto simp: MockExamRequest_body_ten pool_bank_db ten list_all_iff)
qed

section \<open>Defaults and bounds of the request\<close>

lemma MockExamRequest_body_omitted: "MockExamRequest body_omitted = Inr request_omitted"
  by (simp add: MockExamRequest_def Field_def body_omitted_def request_omitted_def)

lemma pool_bank45_db: "questions_pool_db bank45_db request_omitted = replicate 45 pq_one"
  by (simp add: questions_pool_db_def bank45_db_def empty_db_def request_omitted_def pq_one_def
      specific_year_def filter_replicate)

lemma MockExamRequest_eq:
  "MockExamRequest body =
     (if (case body_number_of_questions body of None \<Rightarrow> True | Some v \<Rightarrow> 10 \<le> v \<and> v \<le> 100)
         \<and> (case body_time_limit_minutes body of None \<Rightarrow> True | Some v \<Rightarrow> 15 \<le> v \<and> v \<le> 180)
      then Inr \<lparr>req_exam_type = body_exam_type body, req_subject = body_subject body,
                req_year = body_year body,
                number_of_questions =
                  (case body_number_of_questions body of None \<Rightarrow> 40 | Some v \<Rightarrow> v),
                req_time_limit_minutes =
                  (case body_time_limit_minutes body of None \<Rightarrow> 60 | Some v \<Rightarrow> v)\<rparr>
      else Inl ValidationError)"
  by (simp add: MockExamRequest_def Field_def split: option.splits)

text \<open>
  A request that leaves \<open>number_of_questions\<close> and \<open>time_limit_minutes\<close> out is filled
  with the schema's defaults 40 and 60: with 45 matching bank entries the student gets 40
  questions (50 requested ones would give 45) and a limit of 60 minutes, not 90. The
  route's \<open>or 50\<close> and \<open>or 90\<close> never apply, since a validated value is never 0.
\<close>

theorem create_mock_exam_defaults_counterexample:
  "MockExamRequest body_omitted = Inr request_omitted
   \<and> number_of_questions request_omitted = 40
   \<and> req_time_limit_minutes request_omitted = 60
   \<and> length (questions_pool_db bank45_db request_omitted) = 45
   \<and> map_sum (\<lambda>e. e) (\<lambda>r. (length (resp_questions r), resp_time_limit_minutes r))
        (fst (create_mock_exam (\<lambda>i. 0) 1000 1 request_omitted bank45_db)) = Inr (40, 60)"
proof -
  have ne: "questions_pool_db bank45_db request_omitted \<noteq> []"
    by (simp add: pool_bank45_db)
  have n: "num_questions request_omitted = 40"
    by (simp add: num_questions_def int_or_def request_omitted_def)
  then have nonneg: "0 \<le> num_questions request_omitted" by simp
  have t: "int_or (req_time_limit_minutes request_omitted) 90 = 60"
    by (simp add: int_or_def request_omitted_def)
  note bank = create_mock_exam_bank(1) [OF ne nonneg, of "\<lambda>i. 0" 1000 1]
    create_mock_exam_bank(2) [OF ne nonneg, of "\<lambda>i. 0"]
  have "map_sum (\<lambda>e. e) (\<lambda>r. (length (resp_questions r), resp_time_limit_minutes r))
        (fst (create_mock_exam (\<lambda>i. 0) 1000 1 request_omitted bank45_db)) = Inr (40, 60)"
    using bank by (simp add: exam_response_def n t pool_bank45_db)
  then show ?thesis
    by (simp add: MockExamRequest_body_omitted pool_bank45_db) (simp add: request_omitted_def)
qed

text \<open>
  C6, as the code has it. The schema accepts a body exactly when a given
  \<open>number_of_questions\<close> lies in [10, 100] and a given \<open>time_limit_minutes\<close> in [15, 180],
  and raises a validation error otherwise; a field left out gets the default 40,
  respectively 60. On the bank path the exam then has
  \<open>min(number_of_questions, matching entries)\<close> questions and exactly the request's time
  limit, in the response and in the stored attempt.
\<close>

theorem MockExamRequest_defaults_and_bounds:
  "MockExamRequest body =
     (if (case body_number_of_questions body of None \<Rightarrow> True | Some v \<Rightarrow> 10 \<le> v \<and> v \<le> 100)
         \<and> (case body_time_limit_minutes body of None \<Rightarrow> True | Some v \<Rightarrow> 15 \<le> v \<and> v \<le> 180)
      then Inr \<lparr>req_exam_type = body_exam_type body, req_subject = body_subject body,
                req_year = body_year body,
                number_of_questions =
                  (case body_number_of_questions body of None \<Rightarrow> 40 | Some v \<Rightarrow> v),
                req_time_limit_minutes =
                  (case body_time_limit_minutes body of None \<Rightarrow> 60 | Some v \<Rightarrow> v)\<rparr>
      else Inl ValidationError)
   \<and> (\<forall>request. MockExamRequest body = Inr request \<and> questions_pool_db d request \<noteq> [] \<longrightarrow>
        (\<exists>resp exam. create_mock_exam rnd now u request d = (Inr resp, db_add_exam exam d)
           \<and> length (resp_questions resp) =
               min (nat (number_of_questions request)) (length (questions_pool_db d request))
           \<and> resp_time_limit_minutes resp = req_time_limit_minutes request
           \<and> time_limit_minutes exam = req_time_limit_minutes request))"
proof (intro conjI allI impI)
  show "MockExamRequest body =
     (if (case body_number_of_questions body of None \<Rightarrow> True | Some v \<Rightarrow> 10 \<le> v \<and> v \<le> 100)
         \<and> (case body_time_limit_minutes body of None \<Rightarrow> True | Some v \<Rightarrow> 15 \<le> v \<and> v \<le> 180)
      then Inr \<lparr>req_exam_type = body_exam_type body, req_subject = body_subject body,
                req_year = body_year body,
                number_of_questions =
                  (case body_number_of_questions body of None \<Rightarrow> 40 | Some v \<Rightarrow> v),
                req_time_limit_minutes =
                  (case body_time_limit_minutes body of None \<Rightarrow> 60 | Some v \<Rightarrow> v)\<rparr>
      else Inl ValidationError)"
    by (rule MockExamRequest_eq)
next
  fix request
  assume a: "MockExamRequest body = Inr request \<and> questions_pool_db d request \<noteq> []"
  then have valid: "MockExamRequest body = Inr request" by simp
  have n: "num_questions request = number_of_questions request"
    using valid by (rule num_questions_valid)
  have t: "int_or (req_time_limit_minutes request) 90 = req_time_limit_minutes request"
    using valid by (rule time_limit_valid)
  from a have nonneg: "0 \<le> num_questions request"
    using MockExamRequest_bounds [of body request] n by simp
  from a have ne: "questions_pool_db d request \<noteq> []" by simp
  let ?selected = "draw rnd (questions_pool_db d request)
      (min (nat (num_questions request)) (length (questions_pool_db d request)))"
  let ?limit = "int_or (req_time_limit_minutes request) 90"
  let ?exam = "new_exam_attempt now u request d (snapshot ?selected)
      (map pq_correct_answer ?selected) ?limit (length ?selected)"
  let ?resp = "exam_response ?exam request (student_view ?selected) ?limit"
  have "create_mock_exam rnd now u request d = (Inr ?resp, db_add_exam ?exam d)"
    by (rule create_mock_exam_bank(1) [OF ne nonneg])
  moreover have "length (resp_questions ?resp) =
      min (nat (number_of_questions request)) (length (questions_pool_db d request))"
    using create_mock_exam_bank(2) [OF ne nonneg, of rnd] by (simp add: exam_response_def n)
  moreover have "resp_time_limit_minutes ?resp = req_time_limit_minutes request"
    by (simp add: exam_response_def t)
  moreover have "time_limit_minutes ?exam = req_time_limit_minutes request"
    by (simp add: new_exam_attempt_def t)
  ultimately show "\<exists>resp exam. create_mock_exam rnd now u request d = (Inr resp, db_add_exam exam d)
           \<and> length (resp_questions resp) =
               min (nat (number_of_questions request)) (length (questions_pool_db d request))
           \<and> resp_time_limit_minutes resp = req_time_limit_minutes request
           \<and> time_limit_minutes exam = req_time_limit_minutes request"
    by blast
qed

theorem MockExamRequest_defaults_and_bounds_witness:
  "MockExamRequest body_omitted = Inr request_omitted
   \<and> questions_pool_db bank45_db request_omitted \<noteq> []
   \<and> (\<exists>resp exam. create_mock_exam (\<lambda>i. 0) 1000 1 request_omitted bank45_db
                      = (Inr resp, db_add_exam exam bank45_db)
        \<and> length (resp_questions resp) = 40
        \<and> resp_time_limit_minutes resp = 60
        \<and> time_limit_minutes exam = 60)"
proof -
  have ne: "questions_pool_db bank45_db request_omitted \<noteq> []"
    by (simp add: pool_bank45_db)
  have v: "number_of_questions request_omitted = 40" "req_time_limit_minutes request_omitted = 60"
    by (simp_all add: request_omitted_def)
  show ?thesis
    using MockExamRequest_defaults_and_bounds [of body_omitted bank45_db "\<lambda>i. 0" 1000 1]
      MockExamRequest_body_omitted ne
    by (auto simp: v pool_bank45_db)
qed

section \<open>Subject counters\<close>










lemma find_exam_db_two: "find_exam db_two (sub_exam_id submission_first) 1 = Some exam_two"
  by (simp add: find_exam_def store_defs)




section \<open>The grading loop\<close>

lemma grade_answer_eq:
  "grade_answer exam item g =
     (case py_index (questions exam) (fst item - 1) of
        Inl err \<Rightarrow> Inl err
      | Inr question \<Rightarrow>
          Inr \<lparr>g_correct_count = (if is_match exam item then g_correct_count g + 1
                                   else g_correct_count g),
               g_detailed_results = g_detailed_results g @
                 [\<lparr>dr_question_number = fst item,
                   dr_question_text = sq_question question,
                   dr_user_answer = snd item,
                   dr_correct_answer = answer_key_get (correct_answers exam) (fst item),
                   dr_is_correct = is_match exam item,
                   dr_topic = topic_of question\<rparr>],
               g_weak_topics = (if is_match exam item then g_weak_topics g
                                else count_miss (g_weak_topics g) (topic_of question))\<rparr>)"
  by (simp add: grade_answer_def Let_def is_match_def split: sum.splits)

lemma grade_loop_result:
  "grade_loop exam items g = Inr g' \<Longrightarrow>
     g_correct_count g' = g_correct_count g + length (filter (is_match exam) items)
     \<and> g_weak_topics g' = fold (\<lambda>t w. count_miss w t) (missed_topics exam items) (g_weak_topics g)"
proof (induction items arbitrary: g)
  case Nil
  then show ?case by (simp add: missed_topics_def)
next
  case (Cons item items)
  from Cons.prems obtain g1 where
    g1: "grade_answer exam item g = Inr g1" and rest: "grade_loop exam items g1 = Inr g'"
    by (auto split: sum.splits)
  from g1 obtain question where q: "py_index (questions exam) (fst item - 1) = Inr question"
    by (auto simp: grade_answer_eq split: sum.splits)
  from g1 q have
    "g_correct_count g1 = (if is_match exam item then g_correct_count g + 1 else g_correct_count g)"
    "g_weak_topics g1 = (if is_match exam item then g_weak_topics g
                         else count_miss (g_weak_topics g) (topic_of question))"
    by (auto simp: grade_answer_eq)
  with Cons.IH [OF rest] q show ?case
    by (simp add: missed_topics_def)
qed

lemma py_index_in_range:
  "1 \<le> p \<Longrightarrow> p \<le> int (length xs) \<Longrightarrow> py_index xs (p - 1) = Inr (xs ! nat (p - 1))"
  by (simp add: py_index_def)

lemma grade_loop_total:
  "in_range exam items \<Longrightarrow> \<exists>g'. grade_loop exam items g = Inr g'"
proof (induction items arbitrary: g)
  case Nil
  then show ?case by simp
next
  case (Cons item items)
  then have "py_index (questions exam) (fst item - 1) = Inr (questions exam ! nat (fst item - 1))"
    by (simp add: in_range_def py_index_in_range)
  then obtain g1 where "grade_answer exam item g = Inr g1"
    by (simp add: grade_answer_eq)
  moreover from Cons have "\<exists>g'. grade_loop exam items g1 = Inr g'"
    by (simp add: in_range_def)
  ultimately show ?case by simp
qed

lemma first_seen_snoc:
  "first_seen (xs @ [x]) = (if x \<in> set xs then first_seen xs else first_seen xs @ [x])"
  by (simp add: first_seen_def)

lemma set_first_seen [simp]: "set (first_seen xs) = set xs"
  by (simp add: first_seen_def)

lemma distinct_first_seen [simp]: "distinct (first_seen xs)"
  by (simp add: first_seen_def)

lemma dict_get_tabulate:
  "dict_get (map (\<lambda>k. (k, c k)) ks) k = (if k \<in> set ks then Some (c k) else None)"
  by (induction ks) auto

lemma dict_set_tabulate:
  "distinct ks \<Longrightarrow>
   dict_set (map (\<lambda>x. (x, c x)) ks) k v =
     (if k \<in> set ks then map (\<lambda>x. (x, (c(k := v)) x)) ks
      else map (\<lambda>x. (x, c x)) ks @ [(k, v)])"
  by (induction ks) auto

lemma tally_first_seen:
  "fold (\<lambda>t w. count_miss w t) ts [] = map (\<lambda>t. (t, count_list ts t)) (first_seen ts)"
proof (induction ts rule: rev_induct)
  case Nil
  then show ?case by (simp add: first_seen_def)
next
  case (snoc t ts)
  let ?c = "count_list ts"
  let ?ks = "first_seen ts"
  have get: "dict_get_default (map (\<lambda>x. (x, ?c x)) ?ks) t 0 = ?c t"
    by (simp add: dict_get_default_def dict_get_tabulate)
  have "fold (\<lambda>t w. count_miss w t) (ts @ [t]) [] =
        count_miss (fold (\<lambda>t w. count_miss w t) ts []) t"
    by simp
  also have "\<dots> = count_miss (map (\<lambda>x. (x, ?c x)) ?ks) t"
    by (simp only: snoc.IH)
  also have "\<dots> = dict_set (map (\<lambda>x. (x, ?c x)) ?ks) t (?c t + 1)"
    by (simp only: count_miss_def get)
  also have "\<dots> = (if t \<in> set ts then map (\<lambda>x. (x, (?c(t := ?c t + 1)) x)) ?ks
                   else map (\<lambda>x. (x, ?c x)) ?ks @ [(t, ?c t + 1)])"
    by (simp add: dict_set_tabulate)
  also have "\<dots> = map (\<lambda>x. (x, count_list (ts @ [t]) x)) (first_seen (ts @ [t]))"
    by (auto simp: first_seen_snoc)
  finally show ?case .
qed

lemma weak_topics_names_of_tally:
  "weak_topics_names_of (fold (\<lambda>t w. count_miss w t) ts []) = take 3 (rank_topics ts)"
  by (simp add: weak_topics_names_of_def sorted_by_count_desc_def rank_topics_def
      tally_first_seen take_map)

lemma set_rank_topics [simp]: "set (rank_topics ts) = set ts"
  by (auto simp: rank_topics_def image_iff)

lemma distinct_rank_topics: "distinct (rank_topics ts)"
proof -
  let ?xs = "map (\<lambda>t. (t, count_list ts t)) (first_seen ts)"
  have "distinct ?xs"
    by (simp add: distinct_map inj_on_def)
  moreover have "inj_on fst (set ?xs)"
    by (auto simp: inj_on_def)
  ultimately show ?thesis
    by (simp add: rank_topics_def distinct_map)
qed

lemma rank_topics_sorted:
  "sorted_wrt (\<lambda>a b. count_list ts b \<le> count_list ts a) (rank_topics ts)"
proof -
  let ?key = "\<lambda>x :: string \<times> nat. - int (snd x)"
  let ?xs = "map (\<lambda>t. (t, count_list ts t)) (first_seen ts)"
  have "sorted (map ?key (sort_key ?key ?xs))" by (rule sorted_sort_key)
  then have "sorted_wrt (\<lambda>x y. snd y \<le> snd x) (sort_key ?key ?xs)"
    by (simp add: sorted_map)
  moreover have "\<forall>x \<in> set (sort_key ?key ?xs). snd x = count_list ts (fst x)"
    by auto
  ultimately have "sorted_wrt (\<lambda>x y. count_list ts (fst y) \<le> count_list ts (fst x))
      (sort_key ?key ?xs)"
    by (auto elim!: sorted_wrt_mono_rel [rotated])
  then show ?thesis
    by (simp add: rank_topics_def sorted_wrt_map)
qed

lemma rank_topics_stable:
  "filter (\<lambda>t. count_list ts t = k) (rank_topics ts) =
   filter (\<lambda>t. count_list ts t = k) (first_seen ts)"
proof -
  let ?key = "\<lambda>x :: string \<times> nat. - int (snd x)"
  let ?xs = "map (\<lambda>t. (t, count_list ts t)) (first_seen ts)"
  have same: "\<And>ys. set ys = set ?xs \<Longrightarrow>
      filter (\<lambda>x. count_list ts (fst x) = k) ys = filter (\<lambda>x. ?key x = - int k) ys"
    by (intro filter_cong) auto
  have "filter (\<lambda>t. count_list ts t = k) (rank_topics ts) =
        map fst (filter (\<lambda>x. count_list ts (fst x) = k) (sort_key ?key ?xs))"
    by (simp add: rank_topics_def filter_map comp_def)
  also have "\<dots> = map fst (filter (\<lambda>x. ?key x = - int k) (sort_key ?key ?xs))"
    by (simp add: same)
  also have "\<dots> = map fst (filter (\<lambda>x. ?key x = - int k) ?xs)"
    by (simp only: sort_key_stable)
  also have "\<dots> = map fst (filter (\<lambda>x. count_list ts (fst x) = k) ?xs)"
    by (simp add: same)
  also have "\<dots> = filter (\<lambda>t. count_list ts t = k) (first_seen ts)"
    by (simp add: filter_map comp_def)
  finally show ?thesis .
qed

section \<open>Graded submissions\<close>

lemma score_percentage_of_total:
  "t \<noteq> 0 \<Longrightarrow> \<exists>score. score_percentage_of c t = Inr score"
  by (simp add: score_percentage_of_def int_truediv_def)

lemma submit_exam_Inr:
  assumes "submit_exam now u s d = (Inr r, d')" and "find_exam d (sub_exam_id s) u = Some exam"
  shows "\<exists>g. grade_loop exam (answers s) grading_init = Inr g
           \<and> res_correct_count r = g_correct_count g
           \<and> res_weak_topics r = weak_topics_names_of (g_weak_topics g)
           \<and> res_total_questions r = total_questions exam"
  using assms by (auto simp: submit_exam_def Let_def split: if_splits sum.splits)

lemma submit_exam_succeeds:
  assumes "find_exam d (sub_exam_id s) u = Some exam" and "completed_at exam = None"
    and "grade_loop exam (answers s) grading_init = Inr g" and "total_questions exam \<noteq> 0"
  shows "\<exists>r d'. submit_exam now u s d = (Inr r, d')"
proof -
  from assms(4) obtain score where
    "score_percentage_of (g_correct_count g) (total_questions exam) = Inr score"
    using score_percentage_of_total by blast
  with assms(1-3) show ?thesis
    by (simp add: submit_exam_def Let_def)
qed

lemma grade_loop_init_result:
  assumes "grade_loop exam items grading_init = Inr g"
  shows "g_correct_count g = length (filter (is_match exam) items)"
    and "weak_topics_names_of (g_weak_topics g) = take 3 (rank_topics (missed_topics exam items))"
  using grade_loop_result [OF assms]
  by (simp_all add: grading_init_def weak_topics_names_of_tally)

lemma submit_exam_stores_weak_topics:
  assumes "submit_exam now u s d = (Inr r, d')"
  shows "\<exists>exam'. find_exam d' (sub_exam_id s) u = Some exam'
           \<and> weak_topics exam' = Some (res_weak_topics r)
           \<and> correct_count exam' = res_correct_count r
           \<and> score_percentage exam' = res_score_percentage r"
proof -
  from assms obtain exam where ex: "find_exam d (sub_exam_id s) u = Some exam"
    by (auto simp: submit_exam_def split: option.splits)
  from assms ex obtain f us' where
    d': "d' = d\<lparr>exam_attempts :=
                  update_first (\<lambda>e. ea_id e = sub_exam_id s \<and> user_id e = u) f (exam_attempts d),
                user_subjects := us'\<rparr>"
    and f: "\<And>e. ea_id (f e) = ea_id e \<and> user_id (f e) = user_id e
                 \<and> weak_topics (f e) = Some (res_weak_topics r)
                 \<and> correct_count (f e) = res_correct_count r
                 \<and> score_percentage (f e) = res_score_percentage r"
    by (auto simp: submit_exam_def Let_def split: option.splits if_splits sum.splits)
  from ex have found:
    "find (\<lambda>e. ea_id e = sub_exam_id s \<and> user_id e = u) (exam_attempts d) = Some exam"
    by (simp add: find_exam_def)
  then have "ea_id exam = sub_exam_id s \<and> user_id exam = u"
    by (auto simp: find_Some_iff)
  with found have "find_exam d' (sub_exam_id s) u = Some (f exam)"
    unfolding find_exam_def d' using f by (simp add: find_update_first)
  with f show ?thesis by blast
qed

lemma missed_topics_in_range:
  "in_range exam items \<Longrightarrow>
   missed_topics exam items =
     map (\<lambda>item. topic_of (questions exam ! nat (fst item - 1)))
       (filter (\<lambda>item. \<not> is_match exam item) items)"
  by (induction items) (auto simp: missed_topics_def in_range_def py_index_in_range)

text \<open>
  C5. In every graded submission the weak topics are the first three of the ranking of
  the missed topics: one miss is counted for each submitted position whose answer does
  not match, under the question's topic (\<open>topic_of\<close>: "Unknown" when the question has
  none); the ranking lists every missed topic once, by miss count from largest to
  smallest, and topics with equal counts stay in the order of their first encounter.
  The weak topics are also what the attempt stores.
\<close>

theorem weak_topics_ranking:
  assumes "submit_exam now u s d = (Inr r, d')" and "find_exam d (sub_exam_id s) u = Some exam"
  shows "res_weak_topics r = take 3 (rank_topics (missed_topics exam (answers s)))
    \<and> distinct (rank_topics (missed_topics exam (answers s)))
    \<and> set (rank_topics (missed_topics exam (answers s))) = set (missed_topics exam (answers s))
    \<and> sorted_wrt (\<lambda>a b. count_list (missed_topics exam (answers s)) b
                         \<le> count_list (missed_topics exam (answers s)) a)
         (rank_topics (missed_topics exam (answers s)))
    \<and> (\<forall>k. filter (\<lambda>t. count_list (missed_topics exam (answers s)) t = k)
               (rank_topics (missed_topics exam (answers s)))
           = filter (\<lambda>t. count_list (missed_topics exam (answers s)) t = k)
               (first_seen (missed_topics exam (answers s))))
    \<and> (\<exists>exam'. find_exam d' (sub_exam_id s) u = Some exam'
          \<and> weak_topics exam' = Some (res_weak_topics r))"
proof -
  from submit_exam_Inr [OF assms] obtain g where
    g: "grade_loop exam (answers s) grading_init = Inr g"
    and w: "res_weak_topics r = weak_topics_names_of (g_weak_topics g)"
    by blast
  from w grade_loop_init_result(2) [OF g]
  have "res_weak_topics r = take 3 (rank_topics (missed_topics exam (answers s)))"
    by simp
  moreover from submit_exam_stores_weak_topics [OF assms(1)]
  have "\<exists>exam'. find_exam d' (sub_exam_id s) u = Some exam'
          \<and> weak_topics exam' = Some (res_weak_topics r)"
    by blast
  ultimately show ?thesis
    using distinct_rank_topics rank_topics_sorted rank_topics_stable
    by (simp del: set_rank_topics add: set_rank_topics [simplified])
qed

text \<open>
  C3, as the code has it. A sparse answer map whose positions lie in \<open>[1, n]\<close>, for an
  open attempt with \<open>n \<ge> 1\<close> questions, is graded without an error; the correct count is
  the number of matches among the submitted positions; the miss counters come from the
  submitted positions that do not match and from nothing else, so a position left out
  adds no miss to its topic.
\<close>

theorem sparse_submission_graded:
  assumes "find_exam d (sub_exam_id s) u = Some exam" and "completed_at exam = None"
    and "total_questions exam \<noteq> 0" and "in_range exam (answers s)"
  shows "\<exists>r d'. submit_exam now u s d = (Inr r, d')
     \<and> res_correct_count r = length (filter (is_match exam) (answers s))
     \<and> res_weak_topics r = take 3 (rank_topics (missed_topics exam (answers s)))
     \<and> missed_topics exam (answers s) =
         map (\<lambda>item. topic_of (questions exam ! nat (fst item - 1)))
           (filter (\<lambda>item. \<not> is_match exam item) (answers s))"
proof -
  from grade_loop_total [OF assms(4)] obtain g where
    g: "grade_loop exam (answers s) grading_init = Inr g"
    by blast
  from submit_exam_succeeds [OF assms(1,2) g assms(3)] obtain r d' where
    sub: "submit_exam now u s d = (Inr r, d')"
    by blast
  from submit_exam_Inr [OF sub assms(1)] g have
    "res_correct_count r = g_correct_count g"
    "res_weak_topics r = weak_topics_names_of (g_weak_topics g)"
    by auto
  with grade_loop_init_result [OF g] missed_topics_in_range [OF assms(4)] sub
  show ?thesis by auto
qed

section \<open>Graded submissions: instances\<close>

lemmas eight_defs = exam_eight_def exam_two_def db_eight_def submission_eight_def empty_db_def
  q_with_topic_def

lemma find_exam_db_eight: "find_exam db_eight (sub_exam_id submission_eight) 1 = Some exam_eight"
  by (simp add: find_exam_def db_eight_def empty_db_def submission_eight_def exam_eight_def exam_two_def)

lemma missed_topics_eight:
  "missed_topics exam_eight (answers submission_eight) =
     [''Trig'', ''Algebra'', ''Geometry'', ''Algebra'', ''Geometry'', ''Unknown'', ''Algebra'',
      ''Geometry'']"
  by (simp add: missed_topics_def is_match_def answer_key_get_def py_index_def topic_of_def
      eight_defs)

lemma rank_topics_eight:
  "rank_topics [''Trig'', ''Algebra'', ''Geometry'', ''Algebra'', ''Geometry'', ''Unknown'',
      ''Algebra'', ''Geometry''] = [''Algebra'', ''Geometry'', ''Trig'', ''Unknown'']"
  by (simp add: rank_topics_def first_seen_def)

theorem weak_topics_ranking_witness:
  "find_exam db_eight (sub_exam_id submission_eight) 1 = Some exam_eight
   \<and> missed_topics exam_eight (answers submission_eight) =
       [''Trig'', ''Algebra'', ''Geometry'', ''Algebra'', ''Geometry'', ''Unknown'', ''Algebra'',
        ''Geometry'']
   \<and> (\<exists>r d'. submit_exam 2000 1 submission_eight db_eight = (Inr r, d')
         \<and> res_weak_topics r = [''Algebra'', ''Geometry'', ''Trig''])"
proof -
  have open_exam: "completed_at exam_eight = None" "total_questions exam_eight \<noteq> 0"
    by (simp_all add: eight_defs)
  have "in_range exam_eight (answers submission_eight)"
    by (simp add: in_range_def eight_defs)
  then obtain g where "grade_loop exam_eight (answers submission_eight) grading_init = Inr g"
    using grade_loop_total by blast
  from submit_exam_succeeds [OF find_exam_db_eight open_exam(1) this open_exam(2)]
  obtain r d' where sub: "submit_exam 2000 1 submission_eight db_eight = (Inr r, d')"
    by blast
  from weak_topics_ranking [OF sub find_exam_db_eight]
  have "res_weak_topics r = [''Algebra'', ''Geometry'', ''Trig'']"
    by (simp add: missed_topics_eight rank_topics_eight)
  with sub find_exam_db_eight missed_topics_eight show ?thesis by blast
qed

lemma in_range_db_two: "in_range exam_two (answers submission_first)"
  by (simp add: in_range_def store_defs)

theorem sparse_submission_graded_witness:
  "find_exam db_two (sub_exam_id submission_first) 1 = Some exam_two
   \<and> completed_at exam_two = None
   \<and> total_questions exam_two \<noteq> 0
   \<and> in_range exam_two (answers submission_first)
   \<and> (\<exists>r d'. submit_exam 2000 1 submission_first db_two = (Inr r, d')
         \<and> res_correct_count r = 1 \<and> res_weak_topics r = [])"
proof -
  have open_exam: "completed_at exam_two = None" "total_questions exam_two \<noteq> 0"
    by (simp_all add: store_defs)
  have m: "missed_topics exam_two (answers submission_first) = []"
    "filter (is_match exam_two) (answers submission_first) = [(1, ''A'')]"
    by (simp_all add: missed_topics_def is_match_def answer_key_get_def store_defs)
  have "rank_topics [] = []"
    by (simp add: rank_topics_def first_seen_def)
  with sparse_submission_graded [OF find_exam_db_two open_exam in_range_db_two, of 2000] m
  show ?thesis
    using find_exam_db_two open_exam in_range_db_two by auto
qed

text \<open>
  Position 2 of the two-question attempt (topic Geometry) is left out of the answer map:
  the loop ends with no miss counter at all, and the graded attempt has no weak topic.
\<close>

theorem submit_exam_omitted_not_missed:
  "submit_exam 2000 1 submission_first db_two = (Inr result_first, db_two_graded)
   \<and> dict_get (answers submission_first) 2 = None
   \<and> dict_get (correct_answers exam_two) 2 = Some (Some ''C'')
   \<and> topic_of (questions exam_two ! 1) = ''Geometry''
   \<and> map_sum (\<lambda>e. e) g_weak_topics (grade_loop exam_two (answers submission_first) grading_init)
       = Inr []
   \<and> res_weak_topics result_first = []
   \<and> weak_topics exam_two_graded = Some []"
  using submit_db_two
  by (simp add: store_defs topic_of_def grade_answer_def answer_key_get_def py_index_def
      grading_init_def result_first_def Let_def)

section \<open>Positions outside the attempt\<close>






lemma bank_attempt_total_questions:
  "total_questions (new_exam_attempt now u request d (snapshot selected) key limit
      (length selected))
   = length (questions (new_exam_attempt now u request d (snapshot selected) key limit
      (length selected)))"
  by (simp add: new_exam_attempt_def snapshot_def)



end
